theory Spec2Isabelle
  imports Complex_Main
begin

section \<open>Fragility models for berth structures subjected to storms\<close>

text \<open>
  A shallow embedding of \<^verbatim>\<open>src/berth_storm_fragility.py\<close>.

  \<^item> The arguments \<^verbatim>\<open>IM\<close> and \<^verbatim>\<open>params\<close> are Python dicts with string keys: maps from
    \<open>string\<close> to values. A value is a Python number (an \<^verbatim>\<open>int\<close> or a \<^verbatim>\<open>float\<close>)
    or a string (the selectors).
  \<^item> A number is modelled by its value, a mathematical real. A decimal literal such as
    \<^verbatim>\<open>9.02\<close> is the rational 902/100 and \<^verbatim>\<open>np.exp\<close> is the real exponential. The
    arithmetic is exact: the rounding of doubles, the saturation of a quotient to
    \<^verbatim>\<open>0.0\<close> or \<^verbatim>\<open>1.0\<close>, and the values \<^verbatim>\<open>inf\<close> and \<^verbatim>\<open>nan\<close> that a product, a sum
    or \<^verbatim>\<open>np.exp\<close> yields on overflow are not represented. A returned value of the
    model therefore stands for the code's double up to rounding, and only where the
    magnitudes are moderate; the theorems about returned values say where.
  \<^item> The exceptions of a call are values \<open>Inl e\<close>: a subscript on a missing key
    (\<^verbatim>\<open>KeyError\<close>), arithmetic on a string (\<^verbatim>\<open>TypeError\<close>), a number or a power too
    large for a double (\<^verbatim>\<open>OverflowError\<close>), and the read of a local variable that no
    branch of an \<^verbatim>\<open>if\<close>/\<^verbatim>\<open>elif\<close> chain has assigned (\<^verbatim>\<open>UnboundLocalError\<close>).
\<close>

subsection \<open>Values, dicts and errors\<close>

datatype pyval = Num real | Str string

type_synonym dict = "string \<rightharpoonup> pyval"

text \<open>
  The first four constructors are the exceptions the Python code can raise, with the name
  of the key or local variable concerned. \<open>InvalidSelector\<close> is the error kind the
  specification names; no statement of the source raises it.
\<close>

datatype error =
  KeyError string | TypeError | OverflowError | UnboundLocalError string | InvalidSelector

text \<open>Sequencing of statements that may raise: the first error ends the call.\<close>

definition bnd :: "error + 'a \<Rightarrow> ('a \<Rightarrow> error + 'b) \<Rightarrow> error + 'b" where
  "bnd m f = (case m of Inl e \<Rightarrow> Inl e | Inr x \<Rightarrow> f x)"

text \<open>The subscript \<^verbatim>\<open>d[k]\<close>.\<close>

definition getitem :: "dict \<Rightarrow> string \<Rightarrow> error + pyval" where
  "getitem d k = (case d k of None \<Rightarrow> Inl (KeyError k) | Some v \<Rightarrow> Inr v)"

text \<open>
  The least magnitude that does not round to a finite double: the midpoint between the
  largest double \<open>2 ^ 1024 - 2 ^ 971\<close> and \<open>2 ^ 1024\<close>.
\<close>

definition DBL_OVERFLOW :: real where
  "DBL_OVERFLOW = 2 ^ 1024 - 2 ^ 970"

text \<open>
  The first use of a value as an operand in a logit polynomial. Every variable of a
  branch occurs first in a product with a float coefficient, before any power. A string
  operand raises \<^verbatim>\<open>TypeError\<close> there. A number of magnitude \<open>DBL_OVERFLOW\<close> or more
  is no double, so it is an \<^verbatim>\<open>int\<close>, and its conversion to \<^verbatim>\<open>float\<close> for the product
  raises \<^verbatim>\<open>OverflowError\<close>.
\<close>

definition num :: "pyval \<Rightarrow> error + real" where
  "num v =
    (case v of
       Num r \<Rightarrow> (if DBL_OVERFLOW \<le> \<bar>r\<bar> then Inl OverflowError else Inr r)
     | Str s \<Rightarrow> Inl TypeError)"

text \<open>
  The powers \<^verbatim>\<open>x**2\<close> and \<^verbatim>\<open>x**3\<close> of a polynomial, given by their exact values.
  On a \<^verbatim>\<open>float\<close> base, \<^verbatim>\<open>**\<close> raises \<^verbatim>\<open>OverflowError\<close> when the result is out of
  range. On an \<^verbatim>\<open>int\<close> base the power is an exact \<^verbatim>\<open>int\<close>, and its conversion to
  \<^verbatim>\<open>float\<close> in the enclosing product or difference raises \<^verbatim>\<open>OverflowError\<close> at the
  same magnitude. Products and sums of floats do not raise.
\<close>

definition powers :: "real list \<Rightarrow> error + unit" where
  "powers ps =
    (if list_ex (\<lambda>p. DBL_OVERFLOW \<le> \<bar>p\<bar>) ps then Inl OverflowError else Inr ())"

text \<open>
  \<^verbatim>\<open>np.exp(g)/(1+np.exp(g))\<close>, the last statement before \<^verbatim>\<open>return pf\<close> in each model,
  in exact arithmetic.
\<close>

definition logistic :: "real \<Rightarrow> real" where
  "logistic g = exp g / (1 + exp g)"

subsection \<open>\<^verbatim>\<open>pile_connection_pf_balomenos\<close> (lines 5 to 53)\<close>

text \<open>
  Lines 39 to 49: the \<^verbatim>\<open>if\<close>/\<^verbatim>\<open>elif\<close> chain that assigns \<^verbatim>\<open>g\<close>. There is no \<^verbatim>\<open>else\<close>:
  when no condition holds, \<^verbatim>\<open>g\<close> stays unassigned and line 51 raises
  \<^verbatim>\<open>UnboundLocalError\<close> on reading it. In a branch, the operands are converted in the
  order of their first use, then the powers of the polynomial are taken.
\<close>

definition balomenos_g :: "pyval \<Rightarrow> pyval \<Rightarrow> pyval \<Rightarrow> pyval \<Rightarrow> error + real" where
  "balomenos_g Hmax' Zc' moment comp_zone =
    (if moment = Str ''full'' \<and> comp_zone = Str ''in'' then
       bnd (num Hmax') (\<lambda>Hmax. bnd (num Zc') (\<lambda>Zc.
         bnd (powers [Hmax^2, Hmax^3]) (\<lambda>_.
         Inr (-27.06 + 9.02*Hmax - 1.88*Zc + 0.18*Hmax*Zc - Hmax^2 + 0.04*Hmax^3))))
     else if moment = Str ''full'' \<and> comp_zone = Str ''out'' then
       bnd (num Hmax') (\<lambda>Hmax. bnd (num Zc') (\<lambda>Zc.
         bnd (powers [Hmax^2, Hmax^3]) (\<lambda>_.
         Inr (-26.89 + 11.35*Hmax - 2.50*Zc + 0.30*Hmax*Zc - 1.62*Hmax^2 + 0.09*Hmax^3))))
     else if moment = Str ''partial'' \<and> comp_zone = Str ''in'' then
       bnd (num Hmax') (\<lambda>Hmax. bnd (num Zc') (\<lambda>Zc.
         bnd (powers [Hmax^2, Zc^2, Hmax^3]) (\<lambda>_.
         Inr (-15.01 + 6.12*Hmax - 2.87*Zc + 0.39*Hmax*Zc - 0.61*Hmax^2 - 0.28*Zc^2
              + 0.03*Hmax^3))))
     else if moment = Str ''partial'' \<and> comp_zone = Str ''out'' then
       bnd (num Hmax') (\<lambda>Hmax. bnd (num Zc') (\<lambda>Zc.
         bnd (powers [Hmax^2, Zc^2, Hmax^3]) (\<lambda>_.
         Inr (-20.945 + 13.27*Hmax - 4.73*Zc + 0.90*Hmax*Zc - 2.71*Hmax^2 - 0.5*Zc^2
              + 0.23*Hmax^3))))
     else Inl (UnboundLocalError ''g''))"

definition pile_connection_pf_balomenos :: "dict \<Rightarrow> dict \<Rightarrow> error + real" where
  "pile_connection_pf_balomenos IM params =
    bnd (getitem IM ''Hmax'') (\<lambda>Hmax.
    bnd (getitem IM ''Zc'') (\<lambda>Zc.
    bnd (getitem params ''moment'') (\<lambda>moment.
    bnd (getitem params ''comp_zone'') (\<lambda>comp_zone.
    bnd (balomenos_g Hmax Zc moment comp_zone) (\<lambda>g.
    Inr (logistic g))))))"

subsection \<open>\<^verbatim>\<open>pile_connection_pf_uplift_maniglio\<close> (lines 56 to 117)\<close>

text \<open>Lines 94 to 113: the chain that assigns \<^verbatim>\<open>logit\<close>, again with no \<^verbatim>\<open>else\<close>.\<close>

definition uplift_maniglio_logit ::
  "pyval \<Rightarrow> pyval \<Rightarrow> pyval \<Rightarrow> pyval \<Rightarrow> pyval \<Rightarrow> pyval \<Rightarrow> pyval \<Rightarrow> pyval \<Rightarrow> error + real" where
  "uplift_maniglio_logit Hmax' Zc' bh' bl' bw' dse' nb' pos =
    (if pos = Str ''internal'' then
       bnd (num Hmax') (\<lambda>Hmax. bnd (num Zc') (\<lambda>Zc. bnd (num bh') (\<lambda>bh.
       bnd (num bl') (\<lambda>bl. bnd (num bw') (\<lambda>bw. bnd (num dse') (\<lambda>dse. bnd (num nb') (\<lambda>nb.
         bnd (powers [Hmax^2, Zc^2, bh^2, bl^2, bw^2, Hmax^3]) (\<lambda>_.
         Inr (-14.654 + 6.2338*Hmax - 3.4827*Zc
              - 30.34*bh + 2.6329*bl + 1.8639*bw - 216.59*dse
              - 0.49599*nb + 0.62134*Hmax*Zc - 0.59376*Hmax^2
              - 0.53821*Zc^2 + 13.322*bh^2 - 0.12446*bl^2
              - 0.064453*bw^2 - 0.029003*Hmax^2*Zc
              + 0.097103*Hmax*Zc^2 + 0.021735*Hmax^3
              - 0.0043198*Hmax^2*Zc^2)))))))))
     else if pos = Str ''seaward'' then
       bnd (num Hmax') (\<lambda>Hmax. bnd (num Zc') (\<lambda>Zc. bnd (num bh') (\<lambda>bh.
       bnd (num bl') (\<lambda>bl. bnd (num bw') (\<lambda>bw. bnd (num dse') (\<lambda>dse. bnd (num nb') (\<lambda>nb.
         bnd (powers [Hmax^2, Zc^2, bh^2, bl^2, bw^2, Hmax^3, Zc^3]) (\<lambda>_.
         Inr (-8.8361 + 5.8162*Hmax - 3.8618*Zc
              - 28.851*bh + 2.9167*bl + 1.9991*bw
              - 206.19*dse - 1.4172*nb + 0.78347*Hmax*Zc
              - 0.53459*Hmax^2 - 0.78347*Zc^2 + 11.851*bh^2
              - 0.14821*bl^2 + 0.037589*bw^2 - 0.042766*Hmax^2*Zc
              + 0.14262*Hmax*Zc^2 + 0.019439*Hmax^3
              - 0.065198*Zc^3 - 0.006523*Hmax^2*Zc^2
              + 0.0068831*Hmax*Zc^3)))))))))
     else Inl (UnboundLocalError ''logit''))"

definition pile_connection_pf_uplift_maniglio :: "dict \<Rightarrow> dict \<Rightarrow> error + real" where
  "pile_connection_pf_uplift_maniglio IM params =
    bnd (getitem IM ''Hmax'') (\<lambda>Hmax.
    bnd (getitem IM ''Zc'') (\<lambda>Zc.
    bnd (getitem params ''bh'') (\<lambda>bh.
    bnd (getitem params ''bl'') (\<lambda>bl.
    bnd (getitem params ''bw'') (\<lambda>bw.
    bnd (getitem params ''dse'') (\<lambda>dse.
    bnd (getitem params ''nb'') (\<lambda>nb.
    bnd (getitem params ''pos'') (\<lambda>pos.
    bnd (uplift_maniglio_logit Hmax Zc bh bl bw dse nb pos) (\<lambda>logit.
    Inr (logistic logit))))))))))"

subsection \<open>\<^verbatim>\<open>pile_connection_pf_flexural_maniglio\<close> (lines 120 to 185)\<close>

text \<open>
  Lines 167 to 181. The \<^verbatim>\<open>uniform\<close> polynomial does not mention \<^verbatim>\<open>X\<close> and the
  \<^verbatim>\<open>pitting\<close> polynomial does not mention \<^verbatim>\<open>dp\<close>, so these values are not used as
  operands in the respective branch.
\<close>

definition flexural_maniglio_logit ::
  "pyval \<Rightarrow> pyval \<Rightarrow> pyval \<Rightarrow> pyval \<Rightarrow> pyval \<Rightarrow> pyval \<Rightarrow> pyval \<Rightarrow> pyval \<Rightarrow> pyval \<Rightarrow> pyval
    \<Rightarrow> pyval \<Rightarrow> pyval \<Rightarrow> pyval \<Rightarrow> error + real" where
  "flexural_maniglio_logit Hmax' Zc' b1' b2' bh' bw' dse' nb' dp' t' X' depth' corr =
    (if corr = Str ''uniform'' then
       bnd (num Hmax') (\<lambda>Hmax. bnd (num Zc') (\<lambda>Zc. bnd (num depth') (\<lambda>depth.
       bnd (num bh') (\<lambda>bh. bnd (num b1') (\<lambda>b1. bnd (num b2') (\<lambda>b2. bnd (num bw') (\<lambda>bw.
       bnd (num dp') (\<lambda>dp. bnd (num dse') (\<lambda>dse. bnd (num nb') (\<lambda>nb. bnd (num t') (\<lambda>t.
         bnd (powers [Hmax^2, Zc^2, bw^2, nb^2, Hmax^3]) (\<lambda>_.
         Inr (7.3471 + 2.791*Hmax - 3.1557*Zc + 0.40065*depth - 1.8352*bh + 0.42456*b1
              - 0.27151*b2 + 0.019989*bw
              + 0.75947*dp - 414.19*dse - 0.70704*nb + 0.011253*t + 0.42697*Hmax*Zc
              + 0.043476*Hmax*b2
              + 0.022533*Hmax*bw - 0.035697*Zc*depth + 27.799*Zc*dse + 0.03824*Zc*nb
              - 0.023764*nb*depth - 0.094056*b1*bw
              + 14.193*bw*dse + 0.021738*bw*nb - 0.38302*Hmax^2 + 0.22222*Zc^2
              - 0.023178*bw^2 + 0.021518*nb^2
              - 0.024721*Hmax^2*Zc + 0.032323*Hmax*Zc^2 + 0.01736*Hmax^3)))))))))))))
     else if corr = Str ''pitting'' then
       bnd (num Hmax') (\<lambda>Hmax. bnd (num Zc') (\<lambda>Zc. bnd (num depth') (\<lambda>depth.
       bnd (num bh') (\<lambda>bh. bnd (num b1') (\<lambda>b1. bnd (num b2') (\<lambda>b2. bnd (num bw') (\<lambda>bw.
       bnd (num dse') (\<lambda>dse. bnd (num nb') (\<lambda>nb. bnd (num X') (\<lambda>X. bnd (num t') (\<lambda>t.
         bnd (powers [Hmax^2, Zc^2, bw^2, X^2, t^2]) (\<lambda>_.
         Inr (16.653 + 1.4314*Hmax - 2.6166*Zc + 0.11173*depth - 1.58342*bh + 0.29456*b1
              - 0.2446*b2 + 0.29089*bw
              - 416.49*dse - 0.55746*nb - 0.81204*X + 0.099918*t + 0.14032*Hmax*Zc
              + 0.032531*Hmax*b2 + 0.031734*Hmax*bw
              - 0.030395*Zc*depth + 0.026797*Zc*b2 + 32.384*Zc*dse + 0.03363*Zc*nb
              - 0.0027384*Zc*t + 14.083*bw*dse
              + 0.024709*bw*nb - 0.0099845*X*t - 0.10253*Hmax^2 + 0.14287*Zc^2
              - 0.02174*bw^2 + 0.047843*X^2 + 0.00038818*t^2
              + 0.019461*Hmax*Zc^2)))))))))))))
     else Inl (UnboundLocalError ''logit''))"

definition pile_connection_pf_flexural_maniglio :: "dict \<Rightarrow> dict \<Rightarrow> error + real" where
  "pile_connection_pf_flexural_maniglio IM params =
    bnd (getitem IM ''Hmax'') (\<lambda>Hmax.
    bnd (getitem IM ''Zc'') (\<lambda>Zc.
    bnd (getitem params ''b1'') (\<lambda>b1.
    bnd (getitem params ''b2'') (\<lambda>b2.
    bnd (getitem params ''bh'') (\<lambda>bh.
    bnd (getitem params ''bw'') (\<lambda>bw.
    bnd (getitem params ''dse'') (\<lambda>dse.
    bnd (getitem params ''nb'') (\<lambda>nb.
    bnd (getitem params ''dp'') (\<lambda>dp.
    bnd (getitem params ''t'') (\<lambda>t.
    bnd (getitem params ''X'') (\<lambda>X.
    bnd (getitem params ''depth'') (\<lambda>depth.
    bnd (getitem params ''corr'') (\<lambda>corr.
    bnd (flexural_maniglio_logit Hmax Zc b1 b2 bh bw dse nb dp t X depth corr) (\<lambda>logit.
    Inr (logistic logit)))))))))))))))"

subsection \<open>\<^verbatim>\<open>pile_connection_uplift_pf\<close> (lines 187 to 202)\<close>

text \<open>
  The third argument is optional: \<open>None\<close> is a call that omits it, and the parameter
  then has its default \<^verbatim>\<open>'maniglio'\<close>. Both branches call the flexural model. With any
  other model name \<^verbatim>\<open>pf\<close> stays unassigned and \<^verbatim>\<open>return pf\<close> raises.
\<close>

definition pile_connection_uplift_pf :: "dict \<Rightarrow> dict \<Rightarrow> pyval option \<Rightarrow> error + real" where
  "pile_connection_uplift_pf IM params model_arg =
    (let model = (case model_arg of None \<Rightarrow> Str ''maniglio'' | Some m \<Rightarrow> m) in
     if model = Str ''balomenos'' then pile_connection_pf_flexural_maniglio IM params
     else if model = Str ''maniglio'' then pile_connection_pf_flexural_maniglio IM params
     else Inl (UnboundLocalError ''pf''))"

subsection \<open>Well-formed inputs\<close>

text \<open>
  The vocabulary of the hypotheses below; it is not part of the program. A number is
  \<open>moderate\<close> when its magnitude is at most \<open>10 ^ 100\<close>; the square and the cube of a
  moderate number are in the range of a double. \<open>moderate_number d k\<close>: the dict \<open>d\<close>
  holds a moderate number under the key \<open>k\<close>, and \<open>numval d k\<close> is that number.
\<close>

definition moderate :: "real \<Rightarrow> bool" where
  "moderate x \<longleftrightarrow> \<bar>x\<bar> \<le> 10 ^ 100"

definition moderate_number :: "dict \<Rightarrow> string \<Rightarrow> bool" where
  "moderate_number d k = (case d k of Some (Num r) \<Rightarrow> moderate r | _ \<Rightarrow> False)"

definition numval :: "dict \<Rightarrow> string \<Rightarrow> real" where
  "numval d k = (case d k of Some (Num r) \<Rightarrow> r | _ \<Rightarrow> 0)"

section \<open>Basic facts about the embedding\<close>

subsection \<open>Running a call\<close>

lemma bnd_Inl: "bnd (Inl e) f = Inl e"
  by (simp add: bnd_def)

lemma bnd_Inr: "bnd (Inr x) f = f x"
  by (simp add: bnd_def)

lemma getitem_Some: "d k = Some v \<Longrightarrow> getitem d k = Inr v"
  by (simp add: getitem_def)

lemma getitem_None: "d k = None \<Longrightarrow> getitem d k = Inl (KeyError k)"
  by (simp add: getitem_def)

lemma num_Str: "num (Str s) = Inl TypeError"
  by (simp add: num_def)

lemma DBL_OVERFLOW_lower: "10 ^ 300 < DBL_OVERFLOW"
  unfolding DBL_OVERFLOW_def by simp

lemma num_in_range: "\<bar>r\<bar> \<le> 10 ^ 300 \<Longrightarrow> num (Num r) = Inr r"
  using DBL_OVERFLOW_lower by (simp add: num_def)

lemma powers_Nil: "powers [] = Inr ()"
  by (simp add: powers_def)

lemma powers_in_range: "\<bar>p\<bar> \<le> 10 ^ 300 \<Longrightarrow> powers (p # ps) = powers ps"
  using DBL_OVERFLOW_lower by (simp add: powers_def)

text \<open>Conversions and powers of numerals: a small bound is cheap to decide.\<close>

lemma num_Num: "\<bar>r\<bar> \<le> 10 ^ 9 \<Longrightarrow> num (Num r) = Inr r"
  by (rule num_in_range, rule order_trans [where y = "10 ^ 9"]) simp_all

lemma powers_Cons: "\<bar>p\<bar> \<le> 10 ^ 9 \<Longrightarrow> powers (p # ps) = powers ps"
  by (rule powers_in_range, rule order_trans [where y = "10 ^ 9"]) simp_all

text \<open>Conversions and powers of moderate numbers.\<close>

lemma abs_power_le:
  fixes x :: real
  shows "\<bar>x\<bar> \<le> b \<Longrightarrow> \<bar>x ^ n\<bar> \<le> b ^ n"
  by (simp add: power_abs power_mono)

lemma moderateI: "\<bar>x\<bar> \<le> b \<Longrightarrow> b \<le> 10 ^ 100 \<Longrightarrow> moderate x"
  unfolding moderate_def by (rule order_trans)

lemma num_moderate: "moderate r \<Longrightarrow> num (Num r) = Inr r"
  unfolding moderate_def
  by (rule num_in_range, rule order_trans [where y = "10 ^ 100"]) simp_all

lemma powers_square: "moderate x \<Longrightarrow> powers (x ^ 2 # ps) = powers ps"
  unfolding moderate_def
  using abs_power_le [of x "10 ^ 100" 2] by (intro powers_in_range) simp

lemma powers_cube: "moderate x \<Longrightarrow> powers (x ^ 3 # ps) = powers ps"
  unfolding moderate_def
  using abs_power_le [of x "10 ^ 100" 3] by (intro powers_in_range) simp

lemmas run_simps = bnd_Inl bnd_Inr getitem_Some getitem_None num_Str num_Num
  powers_Nil powers_Cons num_moderate powers_square powers_cube

lemma getitem_moderate:
  "moderate_number d k \<Longrightarrow> getitem d k = Inr (Num (numval d k))"
  by (auto simp: moderate_number_def numval_def getitem_def split: option.splits pyval.splits)

lemma moderate_numval: "moderate_number d k \<Longrightarrow> moderate (numval d k)"
  by (auto simp: moderate_number_def numval_def split: option.splits pyval.splits)

lemma bnd_cong_Inr: "(\<And>x. m = Inr x \<Longrightarrow> f x = g x) \<Longrightarrow> bnd m f = bnd m g"
  by (cases m) (simp_all add: bnd_def)

lemma getitem_upd_same: "getitem (d(k \<mapsto> v)) k = Inr v"
  by (simp add: getitem_def)

lemma getitem_upd_other: "k \<noteq> k' \<Longrightarrow> getitem (d(k' \<mapsto> v)) k = getitem d k"
  by (simp add: getitem_def)

lemma getitem_eq_Inr: "getitem d k = Inr v \<longleftrightarrow> d k = Some v"
  by (simp add: getitem_def split: option.splits)

subsection \<open>The logistic transform\<close>



lemma logistic_alt: "logistic g = 1 - 1 / (1 + exp g)"
proof -
  have "1 + exp g \<noteq> 0" using exp_gt_zero [of g] by linarith
  then show ?thesis unfolding logistic_def by (simp add: field_simps)
qed

lemma logistic_strict_mono: "logistic a < logistic b \<longleftrightarrow> a < b"
proof -
  have pa: "0 < 1 + exp a" and pb: "0 < 1 + exp b"
    by (simp_all add: add_pos_pos)
  have "logistic a < logistic b \<longleftrightarrow> 1 / (1 + exp b) < 1 / (1 + exp a)"
    by (simp only: logistic_alt) linarith
  also have "\<dots> \<longleftrightarrow> 1 + exp a < 1 + exp b"
    using pa pb by (simp add: field_simps)
  also have "\<dots> \<longleftrightarrow> a < b" by simp
  finally show ?thesis .
qed

lemma logistic_neg: "logistic (- x) = 1 / (1 + exp x)"
proof -
  have "0 < exp x" by simp
  then have "exp x \<noteq> 0" and "1 + exp x \<noteq> 0" by linarith+
  then show ?thesis unfolding logistic_def by (simp add: exp_minus field_simps)
qed

subsection \<open>Bounds on the exponential at 4.42\<close>

text \<open>
  By Taylor's theorem at 0.5525 with seven terms, and \<open>exp 4.42 = exp 0.5525 ^ 8\<close>.
\<close>

lemma exp_05525_bounds: "1.7375 \<le> exp (0.5525::real) \<and> exp (0.5525::real) \<le> 1.7377"
proof -
  obtain t :: real where t: "\<bar>t\<bar> \<le> \<bar>0.5525\<bar>"
    and e: "exp (0.5525::real) = (\<Sum>m<7. 0.5525 ^ m / fact m) + exp t / fact 7 * 0.5525 ^ 7"
    using Maclaurin_exp_le [of "0.5525::real" 7] by blast
  have s: "(\<Sum>m<7. (0.5525::real) ^ m / fact m)
      = 1 + 0.5525 + 0.5525^2 / 2 + 0.5525^3 / 6 + 0.5525^4 / 24 + 0.5525^5 / 120 + 0.5525^6 / 720"
    by (simp add: eval_nat_numeral)
  have "t \<le> 1" using t by simp
  then have "exp t \<le> exp 1" by simp
  then have t3: "exp t \<le> 3" using exp_le by linarith
  have t0: "0 < exp t" by simp
  have r0: "0 \<le> exp t / fact 7 * (0.5525::real) ^ 7"
    using t0 by simp
  have "exp t / fact 7 * (0.5525::real) ^ 7 \<le> 3 / fact 7 * 0.5525 ^ 7"
    using t3 by (simp add: divide_right_mono mult_right_mono)
  then have r1: "exp t / fact 7 * (0.5525::real) ^ 7 \<le> 0.00001"
    by (simp add: eval_nat_numeral)
  have lo: "(1.7375::real) \<le> 1 + 0.5525 + 0.5525^2 / 2 + 0.5525^3 / 6 + 0.5525^4 / 24 + 0.5525^5 / 120 + 0.5525^6 / 720"
    by (simp add: eval_nat_numeral)
  have hi: "1 + 0.5525 + 0.5525^2 / 2 + 0.5525^3 / 6 + 0.5525^4 / 24 + 0.5525^5 / 120 + 0.5525^6 / 720 + 0.00001 \<le> (1.7377::real)"
    by (simp add: eval_nat_numeral)
  show ?thesis using e s r0 r1 lo hi by linarith
qed

lemma exp_442_bounds: "82.69 \<le> exp (4.42::real) \<and> exp (4.42::real) \<le> 83.38"
proof -
  have "exp (4.42::real) = exp (of_nat 8 * 0.5525)" by simp
  also have "\<dots> = exp 0.5525 ^ 8" by (rule exp_of_nat_mult)
  finally have e: "exp (4.42::real) = exp 0.5525 ^ 8" .
  have "(1.7375::real) ^ 8 \<le> exp 0.5525 ^ 8"
    using exp_05525_bounds by (intro power_mono) simp_all
  moreover have "exp (0.5525::real) ^ 8 \<le> 1.7377 ^ 8"
    using exp_05525_bounds by (intro power_mono) simp_all
  moreover have "(82.69::real) \<le> 1.7375 ^ 8" by (simp add: eval_nat_numeral)
  moreover have "(1.7377::real) ^ 8 \<le> 83.38" by (simp add: eval_nat_numeral)
  ultimately show ?thesis using e by linarith
qed

lemma abs_diff_less_from_bounds:
  fixes y :: real
  shows "a < y \<Longrightarrow> y < b \<Longrightarrow> c - d \<le> a \<Longrightarrow> b \<le> c + d \<Longrightarrow> \<bar>y - c\<bar> < d"
  by linarith

lemma logistic_m442: "\<bar>logistic (- 4.42) - 0.0119\<bar> < 0.00005"
proof -
  have p: "(0::real) < 1 + exp 4.42" by (simp add: add_pos_pos)
  have "1 / (1 + exp (4.42::real)) \<le> 1 / (1 + 82.69)"
    using exp_442_bounds by (intro divide_left_mono) (simp_all add: add_pos_pos)
  moreover have "1 / (1 + 82.69) < (0.01195::real)" by simp
  moreover have "1 / (1 + 83.38) \<le> 1 / (1 + exp (4.42::real))"
    using exp_442_bounds p by (intro divide_left_mono) simp_all
  moreover have "(0.01185::real) < 1 / (1 + 83.38)" by simp
  ultimately have "0.01185 < 1 / (1 + exp (4.42::real))" and "1 / (1 + exp (4.42::real)) < 0.01195"
    by linarith+
  then show ?thesis unfolding logistic_neg
    by (rule abs_diff_less_from_bounds) simp_all
qed

subsection \<open>Unused operands of the flexural logit\<close>

lemma flexural_logit_uniform_X:
  "flexural_maniglio_logit Hmax Zc b1 b2 bh bw dse nb dp t X depth (Str ''uniform'')
   = flexural_maniglio_logit Hmax Zc b1 b2 bh bw dse nb dp t X' depth (Str ''uniform'')"
  by (simp add: flexural_maniglio_logit_def)

lemma flexural_logit_pitting_dp:
  "flexural_maniglio_logit Hmax Zc b1 b2 bh bw dse nb dp t X depth (Str ''pitting'')
   = flexural_maniglio_logit Hmax Zc b1 b2 bh bw dse nb dp' t X depth (Str ''pitting'')"
  by (simp add: flexural_maniglio_logit_def)

subsection \<open>The uplift logit as a function of the dowels\<close>






subsection \<open>Invalid selectors\<close>

text \<open>
  When every subscript succeeds and no branch condition holds, the call ends with the
  \<^verbatim>\<open>UnboundLocalError\<close> of the variable the chain should have assigned, whatever the
  other values are. With valid selectors and moderate numbers no exception is raised.
\<close>

lemma balomenos_invalid:
  assumes "IM ''Hmax'' = Some h" and "IM ''Zc'' = Some z"
    and "params ''moment'' = Some m" and "params ''comp_zone'' = Some c"
    and "\<not> (m \<in> {Str ''full'', Str ''partial''} \<and> c \<in> {Str ''in'', Str ''out''})"
  shows "pile_connection_pf_balomenos IM params = Inl (UnboundLocalError ''g'')"
  using assms
  by (auto simp: pile_connection_pf_balomenos_def balomenos_g_def run_simps)

lemma uplift_invalid:
  assumes "IM ''Hmax'' = Some h" and "IM ''Zc'' = Some z"
    and "params ''bh'' = Some bh" and "params ''bl'' = Some bl" and "params ''bw'' = Some bw"
    and "params ''dse'' = Some dse" and "params ''nb'' = Some nb"
    and "params ''pos'' = Some p"
    and "p \<notin> {Str ''internal'', Str ''seaward''}"
  shows "pile_connection_pf_uplift_maniglio IM params = Inl (UnboundLocalError ''logit'')"
  using assms
  by (simp add: pile_connection_pf_uplift_maniglio_def uplift_maniglio_logit_def run_simps)

lemma flexural_invalid:
  assumes "IM ''Hmax'' = Some h" and "IM ''Zc'' = Some z"
    and "params ''b1'' = Some b1" and "params ''b2'' = Some b2"
    and "params ''bh'' = Some bh" and "params ''bw'' = Some bw"
    and "params ''dse'' = Some dse" and "params ''nb'' = Some nb"
    and "params ''dp'' = Some dp" and "params ''t'' = Some t"
    and "params ''X'' = Some X" and "params ''depth'' = Some depth"
    and "params ''corr'' = Some c"
    and "c \<notin> {Str ''uniform'', Str ''pitting''}"
  shows "pile_connection_pf_flexural_maniglio IM params = Inl (UnboundLocalError ''logit'')"
  using assms
  by (simp add: pile_connection_pf_flexural_maniglio_def flexural_maniglio_logit_def run_simps)

lemma dispatcher_invalid:
  assumes "model \<notin> {Str ''balomenos'', Str ''maniglio''}"
  shows "pile_connection_uplift_pf IM params (Some model) = Inl (UnboundLocalError ''pf'')"
  using assms by (simp add: pile_connection_uplift_pf_def)

lemma balomenos_error_iff:
  assumes "list_all (moderate_number IM) [''Hmax'', ''Zc'']"
    and "params ''moment'' = Some m" and "params ''comp_zone'' = Some c"
  shows "isl (pile_connection_pf_balomenos IM params)
    \<longleftrightarrow> \<not> (m \<in> {Str ''full'', Str ''partial''} \<and> c \<in> {Str ''in'', Str ''out''})"
  using assms
  by (auto simp: pile_connection_pf_balomenos_def balomenos_g_def getitem_moderate
      moderate_numval run_simps)

lemma uplift_error_iff:
  assumes "list_all (moderate_number IM) [''Hmax'', ''Zc'']"
    and "list_all (moderate_number params) [''bh'', ''bl'', ''bw'', ''dse'', ''nb'']"
    and "params ''pos'' = Some p"
  shows "isl (pile_connection_pf_uplift_maniglio IM params)
    \<longleftrightarrow> p \<notin> {Str ''internal'', Str ''seaward''}"
  using assms
  by (simp add: pile_connection_pf_uplift_maniglio_def uplift_maniglio_logit_def
      getitem_moderate moderate_numval run_simps)

lemma flexural_error_iff:
  assumes "list_all (moderate_number IM) [''Hmax'', ''Zc'']"
    and "list_all (moderate_number params)
           [''b1'', ''b2'', ''bh'', ''bw'', ''dse'', ''nb'', ''dp'', ''t'', ''X'', ''depth'']"
    and "params ''corr'' = Some c"
  shows "isl (pile_connection_pf_flexural_maniglio IM params)
    \<longleftrightarrow> c \<notin> {Str ''uniform'', Str ''pitting''}"
  using assms
  by (simp add: pile_connection_pf_flexural_maniglio_def flexural_maniglio_logit_def
      getitem_moderate moderate_numval run_simps)

lemma dispatcher_error_iff:
  assumes "list_all (moderate_number IM) [''Hmax'', ''Zc'']"
    and "list_all (moderate_number params)
           [''b1'', ''b2'', ''bh'', ''bw'', ''dse'', ''nb'', ''dp'', ''t'', ''X'', ''depth'']"
    and "params ''corr'' = Some c"
  shows "isl (pile_connection_uplift_pf IM params (Some model))
    \<longleftrightarrow> model \<notin> {Str ''balomenos'', Str ''maniglio''} \<or> c \<notin> {Str ''uniform'', Str ''pitting''}"
  using flexural_error_iff [OF assms]
  by (auto simp: pile_connection_uplift_pf_def)

section \<open>The claims\<close>

text \<open>
  C1. For every \<^verbatim>\<open>IM\<close> and \<^verbatim>\<open>params\<close>, the dispatcher called with model
  \<^verbatim>\<open>'maniglio'\<close>, with model \<^verbatim>\<open>'balomenos'\<close>, or with the model omitted returns
  exactly what \<^verbatim>\<open>pile_connection_pf_flexural_maniglio\<close> returns on the same arguments
  (the same value or the same exception). It does not route to the two uplift models:
  on a \<^verbatim>\<open>params\<close> dict that holds only what the balomenos model reads, or only what
  the maniglio uplift model reads, the dispatcher's result differs from that model's.
\<close>

theorem dispatcher_is_flexural_maniglio:
  "pile_connection_uplift_pf IM params (Some (Str ''maniglio''))
     = pile_connection_pf_flexural_maniglio IM params
   \<and> pile_connection_uplift_pf IM params (Some (Str ''balomenos''))
     = pile_connection_pf_flexural_maniglio IM params
   \<and> pile_connection_uplift_pf IM params None
     = pile_connection_pf_flexural_maniglio IM params
   \<and> pile_connection_uplift_pf [''Hmax'' \<mapsto> Num 4, ''Zc'' \<mapsto> Num 0]
        [''moment'' \<mapsto> Str ''full'', ''comp_zone'' \<mapsto> Str ''in''] (Some (Str ''balomenos''))
     \<noteq> pile_connection_pf_balomenos [''Hmax'' \<mapsto> Num 4, ''Zc'' \<mapsto> Num 0]
        [''moment'' \<mapsto> Str ''full'', ''comp_zone'' \<mapsto> Str ''in'']
   \<and> pile_connection_uplift_pf [''Hmax'' \<mapsto> Num 4, ''Zc'' \<mapsto> Num 0]
        [''bh'' \<mapsto> Num 1, ''bl'' \<mapsto> Num 6, ''bw'' \<mapsto> Num 6, ''dse'' \<mapsto> Num 0.025,
         ''nb'' \<mapsto> Num 4, ''pos'' \<mapsto> Str ''seaward''] (Some (Str ''maniglio''))
     \<noteq> pile_connection_pf_uplift_maniglio [''Hmax'' \<mapsto> Num 4, ''Zc'' \<mapsto> Num 0]
        [''bh'' \<mapsto> Num 1, ''bl'' \<mapsto> Num 6, ''bw'' \<mapsto> Num 6, ''dse'' \<mapsto> Num 0.025,
         ''nb'' \<mapsto> Num 4, ''pos'' \<mapsto> Str ''seaward'']"
  by (simp add: pile_connection_uplift_pf_def pile_connection_pf_flexural_maniglio_def
      pile_connection_pf_balomenos_def balomenos_g_def
      pile_connection_pf_uplift_maniglio_def uplift_maniglio_logit_def run_simps)

text \<open>
  C2, as the specification states it: a call with a selector outside its legal set fails
  with an \<open>InvalidSelector\<close> error. The code has no such check. With
  \<^verbatim>\<open>moment = 'unknown'\<close> no branch assigns \<^verbatim>\<open>g\<close>, and the call ends with Python's
  \<^verbatim>\<open>UnboundLocalError\<close> for \<^verbatim>\<open>g\<close>.
\<close>

theorem invalid_selector_counterexample:
  "pile_connection_pf_balomenos [''Hmax'' \<mapsto> Num 4, ''Zc'' \<mapsto> Num 0]
     [''moment'' \<mapsto> Str ''unknown'', ''comp_zone'' \<mapsto> Str ''in'']
     = Inl (UnboundLocalError ''g'')
   \<and> pile_connection_pf_balomenos [''Hmax'' \<mapsto> Num 4, ''Zc'' \<mapsto> Num 0]
     [''moment'' \<mapsto> Str ''unknown'', ''comp_zone'' \<mapsto> Str ''in'']
     \<noteq> Inl InvalidSelector"
  by (simp add: pile_connection_pf_balomenos_def balomenos_g_def run_simps)

text \<open>
  C2, amended. When every key the function reads is present, a selector outside the legal
  set makes the call fail with \<^verbatim>\<open>UnboundLocalError\<close> for the variable left unassigned
  (\<^verbatim>\<open>g\<close>, \<^verbatim>\<open>logit\<close>, or \<^verbatim>\<open>pf\<close> in the dispatcher). The failure does not depend on
  the other values, which need not even be numbers: no arithmetic comes before it. When
  moreover every numeric key holds a number of magnitude at most \<open>10 ^ 100\<close>, so that
  no power leaves the range of a double, the call fails exactly when a selector is
  invalid; for the dispatcher the selectors are the model name and, since a valid name
  calls the flexural model, the corrosion type.
\<close>

theorem invalid_selector_raises_UnboundLocalError:
  "({''Hmax'', ''Zc''} \<subseteq> dom IM
      \<and> params ''moment'' = Some moment \<and> params ''comp_zone'' = Some comp_zone
      \<and> \<not> (moment \<in> {Str ''full'', Str ''partial''} \<and> comp_zone \<in> {Str ''in'', Str ''out''})
     \<longrightarrow> pile_connection_pf_balomenos IM params = Inl (UnboundLocalError ''g''))
  \<and> ({''Hmax'', ''Zc''} \<subseteq> dom IM \<and> {''bh'', ''bl'', ''bw'', ''dse'', ''nb''} \<subseteq> dom params
      \<and> params ''pos'' = Some pos \<and> pos \<notin> {Str ''internal'', Str ''seaward''}
     \<longrightarrow> pile_connection_pf_uplift_maniglio IM params = Inl (UnboundLocalError ''logit''))
  \<and> ({''Hmax'', ''Zc''} \<subseteq> dom IM
      \<and> {''b1'', ''b2'', ''bh'', ''bw'', ''dse'', ''nb'', ''dp'', ''t'', ''X'', ''depth''} \<subseteq> dom params
      \<and> params ''corr'' = Some corr \<and> corr \<notin> {Str ''uniform'', Str ''pitting''}
     \<longrightarrow> pile_connection_pf_flexural_maniglio IM params = Inl (UnboundLocalError ''logit''))
  \<and> (model \<notin> {Str ''balomenos'', Str ''maniglio''}
     \<longrightarrow> pile_connection_uplift_pf IM params (Some model) = Inl (UnboundLocalError ''pf''))
  \<and> (list_all (moderate_number IM) [''Hmax'', ''Zc'']
      \<and> params ''moment'' = Some moment \<and> params ''comp_zone'' = Some comp_zone
     \<longrightarrow> (isl (pile_connection_pf_balomenos IM params)
          \<longleftrightarrow> \<not> (moment \<in> {Str ''full'', Str ''partial''}
                   \<and> comp_zone \<in> {Str ''in'', Str ''out''})))
  \<and> (list_all (moderate_number IM) [''Hmax'', ''Zc'']
      \<and> list_all (moderate_number params) [''bh'', ''bl'', ''bw'', ''dse'', ''nb'']
      \<and> params ''pos'' = Some pos
     \<longrightarrow> (isl (pile_connection_pf_uplift_maniglio IM params)
          \<longleftrightarrow> pos \<notin> {Str ''internal'', Str ''seaward''}))
  \<and> (list_all (moderate_number IM) [''Hmax'', ''Zc'']
      \<and> list_all (moderate_number params)
           [''b1'', ''b2'', ''bh'', ''bw'', ''dse'', ''nb'', ''dp'', ''t'', ''X'', ''depth'']
      \<and> params ''corr'' = Some corr
     \<longrightarrow> (isl (pile_connection_pf_flexural_maniglio IM params)
            \<longleftrightarrow> corr \<notin> {Str ''uniform'', Str ''pitting''})
        \<and> (isl (pile_connection_uplift_pf IM params (Some model))
            \<longleftrightarrow> model \<notin> {Str ''balomenos'', Str ''maniglio''}
                 \<or> corr \<notin> {Str ''uniform'', Str ''pitting''}))"
proof (intro conjI impI)
  assume "{''Hmax'', ''Zc''} \<subseteq> dom IM
      \<and> params ''moment'' = Some moment \<and> params ''comp_zone'' = Some comp_zone
      \<and> \<not> (moment \<in> {Str ''full'', Str ''partial''} \<and> comp_zone \<in> {Str ''in'', Str ''out''})"
  then show "pile_connection_pf_balomenos IM params = Inl (UnboundLocalError ''g'')"
    by (auto intro: balomenos_invalid)
next
  assume "{''Hmax'', ''Zc''} \<subseteq> dom IM \<and> {''bh'', ''bl'', ''bw'', ''dse'', ''nb''} \<subseteq> dom params
      \<and> params ''pos'' = Some pos \<and> pos \<notin> {Str ''internal'', Str ''seaward''}"
  then show "pile_connection_pf_uplift_maniglio IM params = Inl (UnboundLocalError ''logit'')"
    by (auto intro: uplift_invalid)
next
  assume "{''Hmax'', ''Zc''} \<subseteq> dom IM
      \<and> {''b1'', ''b2'', ''bh'', ''bw'', ''dse'', ''nb'', ''dp'', ''t'', ''X'', ''depth''} \<subseteq> dom params
      \<and> params ''corr'' = Some corr \<and> corr \<notin> {Str ''uniform'', Str ''pitting''}"
  then show "pile_connection_pf_flexural_maniglio IM params = Inl (UnboundLocalError ''logit'')"
    by (auto intro: flexural_invalid)
next
  assume "model \<notin> {Str ''balomenos'', Str ''maniglio''}"
  then show "pile_connection_uplift_pf IM params (Some model) = Inl (UnboundLocalError ''pf'')"
    by (rule dispatcher_invalid)
next
  assume "list_all (moderate_number IM) [''Hmax'', ''Zc'']
      \<and> params ''moment'' = Some moment \<and> params ''comp_zone'' = Some comp_zone"
  then show "isl (pile_connection_pf_balomenos IM params)
          \<longleftrightarrow> \<not> (moment \<in> {Str ''full'', Str ''partial''}
                   \<and> comp_zone \<in> {Str ''in'', Str ''out''})"
    using balomenos_error_iff [of IM params moment comp_zone] by blast
next
  assume "list_all (moderate_number IM) [''Hmax'', ''Zc'']
      \<and> list_all (moderate_number params) [''bh'', ''bl'', ''bw'', ''dse'', ''nb'']
      \<and> params ''pos'' = Some pos"
  then show "isl (pile_connection_pf_uplift_maniglio IM params)
          \<longleftrightarrow> pos \<notin> {Str ''internal'', Str ''seaward''}"
    using uplift_error_iff [of IM params pos] by blast
next
  assume a: "list_all (moderate_number IM) [''Hmax'', ''Zc'']
      \<and> list_all (moderate_number params)
           [''b1'', ''b2'', ''bh'', ''bw'', ''dse'', ''nb'', ''dp'', ''t'', ''X'', ''depth'']
      \<and> params ''corr'' = Some corr"
  then show "isl (pile_connection_pf_flexural_maniglio IM params)
            \<longleftrightarrow> corr \<notin> {Str ''uniform'', Str ''pitting''}"
    using flexural_error_iff [of IM params corr] by blast
  from a show "isl (pile_connection_uplift_pf IM params (Some model))
            \<longleftrightarrow> model \<notin> {Str ''balomenos'', Str ''maniglio''}
                 \<or> corr \<notin> {Str ''uniform'', Str ''pitting''}"
    using dispatcher_error_iff [of IM params corr model] by blast
qed

theorem invalid_selector_raises_UnboundLocalError_witness:
  "pile_connection_pf_balomenos [''Hmax'' \<mapsto> Num 4, ''Zc'' \<mapsto> Num 0]
     [''moment'' \<mapsto> Str ''unknown'', ''comp_zone'' \<mapsto> Str ''in'']
     = Inl (UnboundLocalError ''g'')
  \<and> pile_connection_pf_uplift_maniglio [''Hmax'' \<mapsto> Num 4, ''Zc'' \<mapsto> Num 0]
     [''bh'' \<mapsto> Num 1, ''bl'' \<mapsto> Num 6, ''bw'' \<mapsto> Num 6, ''dse'' \<mapsto> Num 0.025,
      ''nb'' \<mapsto> Num 4, ''pos'' \<mapsto> Str ''landward'']
     = Inl (UnboundLocalError ''logit'')
  \<and> pile_connection_pf_flexural_maniglio [''Hmax'' \<mapsto> Num 4, ''Zc'' \<mapsto> Num 0]
     [''b1'' \<mapsto> Num 2, ''b2'' \<mapsto> Num 5, ''bh'' \<mapsto> Num 1, ''bw'' \<mapsto> Num 6,
      ''dse'' \<mapsto> Num 0.025, ''nb'' \<mapsto> Num 4, ''dp'' \<mapsto> Num 0.6, ''t'' \<mapsto> Num 25,
      ''X'' \<mapsto> Num 5, ''depth'' \<mapsto> Num 10, ''corr'' \<mapsto> Str ''none'']
     = Inl (UnboundLocalError ''logit'')
  \<and> pile_connection_uplift_pf [''Hmax'' \<mapsto> Num 4, ''Zc'' \<mapsto> Num 0]
     [''b1'' \<mapsto> Num 2, ''b2'' \<mapsto> Num 5, ''bh'' \<mapsto> Num 1, ''bw'' \<mapsto> Num 6,
      ''dse'' \<mapsto> Num 0.025, ''nb'' \<mapsto> Num 4, ''dp'' \<mapsto> Num 0.6, ''t'' \<mapsto> Num 25,
      ''X'' \<mapsto> Num 5, ''depth'' \<mapsto> Num 10, ''corr'' \<mapsto> Str ''uniform'']
     (Some (Str ''other''))
     = Inl (UnboundLocalError ''pf'')
  \<and> \<not> isl (pile_connection_pf_balomenos [''Hmax'' \<mapsto> Num 4, ''Zc'' \<mapsto> Num 0]
     [''moment'' \<mapsto> Str ''partial'', ''comp_zone'' \<mapsto> Str ''in''])
  \<and> \<not> isl (pile_connection_pf_uplift_maniglio [''Hmax'' \<mapsto> Num 4, ''Zc'' \<mapsto> Num 0]
     [''bh'' \<mapsto> Num 1, ''bl'' \<mapsto> Num 6, ''bw'' \<mapsto> Num 6, ''dse'' \<mapsto> Num 0.025,
      ''nb'' \<mapsto> Num 4, ''pos'' \<mapsto> Str ''seaward''])
  \<and> \<not> isl (pile_connection_pf_flexural_maniglio [''Hmax'' \<mapsto> Num 4, ''Zc'' \<mapsto> Num 0]
     [''b1'' \<mapsto> Num 2, ''b2'' \<mapsto> Num 5, ''bh'' \<mapsto> Num 1, ''bw'' \<mapsto> Num 6,
      ''dse'' \<mapsto> Num 0.025, ''nb'' \<mapsto> Num 4, ''dp'' \<mapsto> Num 0.6, ''t'' \<mapsto> Num 25,
      ''X'' \<mapsto> Num 5, ''depth'' \<mapsto> Num 10, ''corr'' \<mapsto> Str ''uniform''])
  \<and> \<not> isl (pile_connection_uplift_pf [''Hmax'' \<mapsto> Num 4, ''Zc'' \<mapsto> Num 0]
     [''b1'' \<mapsto> Num 2, ''b2'' \<mapsto> Num 5, ''bh'' \<mapsto> Num 1, ''bw'' \<mapsto> Num 6,
      ''dse'' \<mapsto> Num 0.025, ''nb'' \<mapsto> Num 4, ''dp'' \<mapsto> Num 0.6, ''t'' \<mapsto> Num 25,
      ''X'' \<mapsto> Num 5, ''depth'' \<mapsto> Num 10, ''corr'' \<mapsto> Str ''uniform'']
     (Some (Str ''balomenos'')))"
  using
    invalid_selector_raises_UnboundLocalError [of "[''Hmax'' \<mapsto> Num 4, ''Zc'' \<mapsto> Num 0]"
      "[''moment'' \<mapsto> Str ''unknown'', ''comp_zone'' \<mapsto> Str ''in'']"
      "Str ''unknown''" "Str ''in''"]
    invalid_selector_raises_UnboundLocalError [of "[''Hmax'' \<mapsto> Num 4, ''Zc'' \<mapsto> Num 0]"
      "[''bh'' \<mapsto> Num 1, ''bl'' \<mapsto> Num 6, ''bw'' \<mapsto> Num 6, ''dse'' \<mapsto> Num 0.025,
        ''nb'' \<mapsto> Num 4, ''pos'' \<mapsto> Str ''landward'']"
      _ _ "Str ''landward''"]
    invalid_selector_raises_UnboundLocalError [of "[''Hmax'' \<mapsto> Num 4, ''Zc'' \<mapsto> Num 0]"
      "[''b1'' \<mapsto> Num 2, ''b2'' \<mapsto> Num 5, ''bh'' \<mapsto> Num 1, ''bw'' \<mapsto> Num 6,
        ''dse'' \<mapsto> Num 0.025, ''nb'' \<mapsto> Num 4, ''dp'' \<mapsto> Num 0.6, ''t'' \<mapsto> Num 25,
        ''X'' \<mapsto> Num 5, ''depth'' \<mapsto> Num 10, ''corr'' \<mapsto> Str ''none'']"
      _ _ _ "Str ''none''"]
    invalid_selector_raises_UnboundLocalError [of "[''Hmax'' \<mapsto> Num 4, ''Zc'' \<mapsto> Num 0]"
      "[''b1'' \<mapsto> Num 2, ''b2'' \<mapsto> Num 5, ''bh'' \<mapsto> Num 1, ''bw'' \<mapsto> Num 6,
        ''dse'' \<mapsto> Num 0.025, ''nb'' \<mapsto> Num 4, ''dp'' \<mapsto> Num 0.6, ''t'' \<mapsto> Num 25,
        ''X'' \<mapsto> Num 5, ''depth'' \<mapsto> Num 10, ''corr'' \<mapsto> Str ''uniform'']"
      _ _ _ "Str ''uniform''" "Str ''other''"]
    invalid_selector_raises_UnboundLocalError [of "[''Hmax'' \<mapsto> Num 4, ''Zc'' \<mapsto> Num 0]"
      "[''moment'' \<mapsto> Str ''partial'', ''comp_zone'' \<mapsto> Str ''in'']"
      "Str ''partial''" "Str ''in''"]
    invalid_selector_raises_UnboundLocalError [of "[''Hmax'' \<mapsto> Num 4, ''Zc'' \<mapsto> Num 0]"
      "[''bh'' \<mapsto> Num 1, ''bl'' \<mapsto> Num 6, ''bw'' \<mapsto> Num 6, ''dse'' \<mapsto> Num 0.025,
        ''nb'' \<mapsto> Num 4, ''pos'' \<mapsto> Str ''seaward'']"
      _ _ "Str ''seaward''"]
    invalid_selector_raises_UnboundLocalError [of "[''Hmax'' \<mapsto> Num 4, ''Zc'' \<mapsto> Num 0]"
      "[''b1'' \<mapsto> Num 2, ''b2'' \<mapsto> Num 5, ''bh'' \<mapsto> Num 1, ''bw'' \<mapsto> Num 6,
        ''dse'' \<mapsto> Num 0.025, ''nb'' \<mapsto> Num 4, ''dp'' \<mapsto> Num 0.6, ''t'' \<mapsto> Num 25,
        ''X'' \<mapsto> Num 5, ''depth'' \<mapsto> Num 10, ''corr'' \<mapsto> Str ''uniform'']"
      _ _ _ "Str ''uniform''" "Str ''balomenos''"]
  by (simp add: moderate_number_def moderate_def)

text \<open>
  C3, as the specification states it: for every real \<^verbatim>\<open>Hmax\<close> and \<^verbatim>\<open>Zc\<close>, also outside
  the documented ranges, the balomenos model returns \<open>exp g / (1 + exp g)\<close> with \<open>g\<close>
  the published cubic, and never an error. At \<^verbatim>\<open>Hmax = 2.0**600\<close> the power
  \<^verbatim>\<open>Hmax**2\<close> is out of the range of a double: the call raises \<^verbatim>\<open>OverflowError\<close> and
  returns no value.
\<close>

theorem balomenos_overflow_counterexample:
  "pile_connection_pf_balomenos [''Hmax'' \<mapsto> Num (2 ^ 600), ''Zc'' \<mapsto> Num 0]
     [''moment'' \<mapsto> Str ''full'', ''comp_zone'' \<mapsto> Str ''in'']
     = Inl OverflowError
   \<and> pile_connection_pf_balomenos [''Hmax'' \<mapsto> Num (2 ^ 600), ''Zc'' \<mapsto> Num 0]
     [''moment'' \<mapsto> Str ''full'', ''comp_zone'' \<mapsto> Str ''in'']
     \<noteq> (let Hmax = 2 ^ 600; Zc = 0;
             g = -27.06 + 9.02*Hmax - 1.88*Zc + 0.18*Hmax*Zc - Hmax^2 + 0.04*Hmax^3
         in Inr (exp g / (1 + exp g)))"
  by (simp add: pile_connection_pf_balomenos_def balomenos_g_def getitem_Some bnd_Inr bnd_Inl
      num_def powers_def DBL_OVERFLOW_def Let_def)

text \<open>
  C3, amended. For \<^verbatim>\<open>Hmax\<close> and \<^verbatim>\<open>Zc\<close> of magnitude at most 10, a box that contains the
  documented ranges \<open>[0, 8]\<close> and \<open>[-2, 2]\<close> and values outside them, and each of the
  four legal (moment, comp_zone) pairs, \<^verbatim>\<open>pile_connection_pf_balomenos\<close> returns
  \<open>exp g / (1 + exp g)\<close> where \<open>g\<close> is the cubic polynomial the specification
  publishes for that pair. On this box every logit is below 80, far from the overflow of
  \<^verbatim>\<open>np.exp\<close>, and the double the code returns is this value up to rounding.
\<close>

theorem balomenos_published_cubics_within_10:
  assumes "IM ''Hmax'' = Some (Num Hmax)" and "IM ''Zc'' = Some (Num Zc)"
    and "\<bar>Hmax\<bar> \<le> 10" and "\<bar>Zc\<bar> \<le> 10"
  shows
   "(params ''moment'' = Some (Str ''full'') \<and> params ''comp_zone'' = Some (Str ''in'') \<longrightarrow>
       pile_connection_pf_balomenos IM params =
         (let g = -27.06 + 9.02*Hmax - 1.88*Zc + 0.18*Hmax*Zc - Hmax^2 + 0.04*Hmax^3
          in Inr (exp g / (1 + exp g))))
  \<and> (params ''moment'' = Some (Str ''full'') \<and> params ''comp_zone'' = Some (Str ''out'') \<longrightarrow>
       pile_connection_pf_balomenos IM params =
         (let g = -26.89 + 11.35*Hmax - 2.50*Zc + 0.30*Hmax*Zc - 1.62*Hmax^2 + 0.09*Hmax^3
          in Inr (exp g / (1 + exp g))))
  \<and> (params ''moment'' = Some (Str ''partial'') \<and> params ''comp_zone'' = Some (Str ''in'') \<longrightarrow>
       pile_connection_pf_balomenos IM params =
         (let g = -15.01 + 6.12*Hmax - 2.87*Zc + 0.39*Hmax*Zc - 0.61*Hmax^2 - 0.28*Zc^2
                  + 0.03*Hmax^3
          in Inr (exp g / (1 + exp g))))
  \<and> (params ''moment'' = Some (Str ''partial'') \<and> params ''comp_zone'' = Some (Str ''out'') \<longrightarrow>
       pile_connection_pf_balomenos IM params =
         (let g = -20.945 + 13.27*Hmax - 4.73*Zc + 0.90*Hmax*Zc - 2.71*Hmax^2 - 0.5*Zc^2
                  + 0.23*Hmax^3
          in Inr (exp g / (1 + exp g))))"
proof -
  have "moderate Hmax" and "moderate Zc"
    using assms(3,4) by (auto intro: moderateI)
  with assms(1,2) show ?thesis
    by (simp add: pile_connection_pf_balomenos_def balomenos_g_def logistic_def Let_def run_simps)
qed

theorem balomenos_published_cubics_within_10_witness:
  "pile_connection_pf_balomenos [''Hmax'' \<mapsto> Num 10, ''Zc'' \<mapsto> Num (-3)]
     [''moment'' \<mapsto> Str ''full'', ''comp_zone'' \<mapsto> Str ''in'']
     = Inr (exp 3.38 / (1 + exp 3.38))
   \<and> pile_connection_pf_balomenos [''Hmax'' \<mapsto> Num 10, ''Zc'' \<mapsto> Num (-3)]
     [''moment'' \<mapsto> Str ''full'', ''comp_zone'' \<mapsto> Str ''out'']
     = Inr (exp 13.11 / (1 + exp 13.11))
   \<and> pile_connection_pf_balomenos [''Hmax'' \<mapsto> Num 10, ''Zc'' \<mapsto> Num (-3)]
     [''moment'' \<mapsto> Str ''partial'', ''comp_zone'' \<mapsto> Str ''in'']
     = Inr (exp 9.58 / (1 + exp 9.58))
   \<and> pile_connection_pf_balomenos [''Hmax'' \<mapsto> Num 10, ''Zc'' \<mapsto> Num (-3)]
     [''moment'' \<mapsto> Str ''partial'', ''comp_zone'' \<mapsto> Str ''out'']
     = Inr (exp 53.445 / (1 + exp 53.445))"
  using
    balomenos_published_cubics_within_10 [of "[''Hmax'' \<mapsto> Num 10, ''Zc'' \<mapsto> Num (-3)]" 10 "-3"
      "[''moment'' \<mapsto> Str ''full'', ''comp_zone'' \<mapsto> Str ''in'']"]
    balomenos_published_cubics_within_10 [of "[''Hmax'' \<mapsto> Num 10, ''Zc'' \<mapsto> Num (-3)]" 10 "-3"
      "[''moment'' \<mapsto> Str ''full'', ''comp_zone'' \<mapsto> Str ''out'']"]
    balomenos_published_cubics_within_10 [of "[''Hmax'' \<mapsto> Num 10, ''Zc'' \<mapsto> Num (-3)]" 10 "-3"
      "[''moment'' \<mapsto> Str ''partial'', ''comp_zone'' \<mapsto> Str ''in'']"]
    balomenos_published_cubics_within_10 [of "[''Hmax'' \<mapsto> Num 10, ''Zc'' \<mapsto> Num (-3)]" 10 "-3"
      "[''moment'' \<mapsto> Str ''partial'', ''comp_zone'' \<mapsto> Str ''out'']"]
  by (simp add: Let_def)




text \<open>
  C5. At \<^verbatim>\<open>Hmax = 4\<close>, \<^verbatim>\<open>Zc = 0\<close>, moment \<^verbatim>\<open>'full'\<close> and compression zone
  \<^verbatim>\<open>'in'\<close> the logit is exactly \<open>-4.42 = -27.06 + 36.08 - 16 + 2.56\<close>, the model
  returns \<open>exp (-4.42) / (1 + exp (-4.42))\<close>, and this value is 0.0119 to four decimal
  places.
\<close>

theorem balomenos_scenario_Hmax4_Zc0:
  "balomenos_g (Num 4) (Num 0) (Str ''full'') (Str ''in'') = Inr (- 4.42)
   \<and> (- 27.06 + 36.08 - 16 + 2.56 :: real) = - 4.42
   \<and> pile_connection_pf_balomenos [''Hmax'' \<mapsto> Num 4, ''Zc'' \<mapsto> Num 0]
        [''moment'' \<mapsto> Str ''full'', ''comp_zone'' \<mapsto> Str ''in'']
      = Inr (exp (- 4.42) / (1 + exp (- 4.42)))
   \<and> \<bar>exp (- 4.42) / (1 + exp (- 4.42)) - (0.0119::real)\<bar> < 0.00005"
proof (intro conjI)
  show g: "balomenos_g (Num 4) (Num 0) (Str ''full'') (Str ''in'') = Inr (- 4.42)"
    by (simp add: balomenos_g_def run_simps)
  show "(- 27.06 + 36.08 - 16 + 2.56 :: real) = - 4.42"
    by simp
  show "pile_connection_pf_balomenos [''Hmax'' \<mapsto> Num 4, ''Zc'' \<mapsto> Num 0]
        [''moment'' \<mapsto> Str ''full'', ''comp_zone'' \<mapsto> Str ''in'']
      = Inr (exp (- 4.42) / (1 + exp (- 4.42)))"
    by (simp add: pile_connection_pf_balomenos_def g logistic_def run_simps)
  show "\<bar>exp (- 4.42) / (1 + exp (- 4.42)) - (0.0119::real)\<bar> < 0.00005"
    using logistic_m442 by (simp only: logistic_def)
qed

text \<open>
  C6. At \<^verbatim>\<open>Hmax = 0\<close> and \<^verbatim>\<open>Zc = 0\<close> the balomenos model returns
  \<open>exp c0 / (1 + exp c0)\<close> with \<open>c0\<close> the intercept of the branch: -27.06 for
  full/in, -26.89 for full/out, -15.01 for partial/in and -20.945 for partial/out.
\<close>

theorem balomenos_intercepts:
  assumes "IM ''Hmax'' = Some (Num 0)" and "IM ''Zc'' = Some (Num 0)"
  shows
   "(params ''moment'' = Some (Str ''full'') \<and> params ''comp_zone'' = Some (Str ''in'') \<longrightarrow>
       pile_connection_pf_balomenos IM params = Inr (exp (- 27.06) / (1 + exp (- 27.06))))
  \<and> (params ''moment'' = Some (Str ''full'') \<and> params ''comp_zone'' = Some (Str ''out'') \<longrightarrow>
       pile_connection_pf_balomenos IM params = Inr (exp (- 26.89) / (1 + exp (- 26.89))))
  \<and> (params ''moment'' = Some (Str ''partial'') \<and> params ''comp_zone'' = Some (Str ''in'') \<longrightarrow>
       pile_connection_pf_balomenos IM params = Inr (exp (- 15.01) / (1 + exp (- 15.01))))
  \<and> (params ''moment'' = Some (Str ''partial'') \<and> params ''comp_zone'' = Some (Str ''out'') \<longrightarrow>
       pile_connection_pf_balomenos IM params = Inr (exp (- 20.945) / (1 + exp (- 20.945))))"
  using assms
  by (simp add: pile_connection_pf_balomenos_def balomenos_g_def logistic_def run_simps)

theorem balomenos_intercepts_witness:
  "pile_connection_pf_balomenos [''Hmax'' \<mapsto> Num 0, ''Zc'' \<mapsto> Num 0]
     [''moment'' \<mapsto> Str ''full'', ''comp_zone'' \<mapsto> Str ''in'']
     = Inr (exp (- 27.06) / (1 + exp (- 27.06)))
   \<and> pile_connection_pf_balomenos [''Hmax'' \<mapsto> Num 0, ''Zc'' \<mapsto> Num 0]
     [''moment'' \<mapsto> Str ''full'', ''comp_zone'' \<mapsto> Str ''out'']
     = Inr (exp (- 26.89) / (1 + exp (- 26.89)))
   \<and> pile_connection_pf_balomenos [''Hmax'' \<mapsto> Num 0, ''Zc'' \<mapsto> Num 0]
     [''moment'' \<mapsto> Str ''partial'', ''comp_zone'' \<mapsto> Str ''in'']
     = Inr (exp (- 15.01) / (1 + exp (- 15.01)))
   \<and> pile_connection_pf_balomenos [''Hmax'' \<mapsto> Num 0, ''Zc'' \<mapsto> Num 0]
     [''moment'' \<mapsto> Str ''partial'', ''comp_zone'' \<mapsto> Str ''out'']
     = Inr (exp (- 20.945) / (1 + exp (- 20.945)))"
  using
    balomenos_intercepts [of "[''Hmax'' \<mapsto> Num 0, ''Zc'' \<mapsto> Num 0]"
      "[''moment'' \<mapsto> Str ''full'', ''comp_zone'' \<mapsto> Str ''in'']"]
    balomenos_intercepts [of "[''Hmax'' \<mapsto> Num 0, ''Zc'' \<mapsto> Num 0]"
      "[''moment'' \<mapsto> Str ''full'', ''comp_zone'' \<mapsto> Str ''out'']"]
    balomenos_intercepts [of "[''Hmax'' \<mapsto> Num 0, ''Zc'' \<mapsto> Num 0]"
      "[''moment'' \<mapsto> Str ''partial'', ''comp_zone'' \<mapsto> Str ''in'']"]
    balomenos_intercepts [of "[''Hmax'' \<mapsto> Num 0, ''Zc'' \<mapsto> Num 0]"
      "[''moment'' \<mapsto> Str ''partial'', ''comp_zone'' \<mapsto> Str ''out'']"]
  by simp

text \<open>
  C7. In the full/in branch with \<^verbatim>\<open>Zc = 0\<close>, the value returned at \<^verbatim>\<open>Hmax = 3\<close> is
  strictly greater than the value returned at \<^verbatim>\<open>Hmax = 0\<close>.
\<close>

theorem balomenos_full_in_Hmax3_above_Hmax0:
  assumes "IM0 ''Hmax'' = Some (Num 0)" and "IM0 ''Zc'' = Some (Num 0)"
    and "IM3 ''Hmax'' = Some (Num 3)" and "IM3 ''Zc'' = Some (Num 0)"
    and "params ''moment'' = Some (Str ''full'')"
    and "params ''comp_zone'' = Some (Str ''in'')"
  shows "\<exists>pf0 pf3. pile_connection_pf_balomenos IM0 params = Inr pf0
           \<and> pile_connection_pf_balomenos IM3 params = Inr pf3 \<and> pf3 > pf0"
proof -
  have r0: "pile_connection_pf_balomenos IM0 params = Inr (logistic (- 27.06))"
    using assms
    by (simp add: pile_connection_pf_balomenos_def balomenos_g_def run_simps)
  have r3: "pile_connection_pf_balomenos IM3 params = Inr (logistic (- 7.92))"
    using assms
    by (simp add: pile_connection_pf_balomenos_def balomenos_g_def run_simps)
  have "logistic (- 27.06) < logistic (- 7.92)"
    by (simp add: logistic_strict_mono)
  with r0 r3 show ?thesis by blast
qed

theorem balomenos_full_in_Hmax3_above_Hmax0_witness:
  "\<exists>pf0 pf3. pile_connection_pf_balomenos [''Hmax'' \<mapsto> Num 0, ''Zc'' \<mapsto> Num 0]
        [''moment'' \<mapsto> Str ''full'', ''comp_zone'' \<mapsto> Str ''in''] = Inr pf0
     \<and> pile_connection_pf_balomenos [''Hmax'' \<mapsto> Num 3, ''Zc'' \<mapsto> Num 0]
        [''moment'' \<mapsto> Str ''full'', ''comp_zone'' \<mapsto> Str ''in''] = Inr pf3
     \<and> pf3 > pf0"
  using balomenos_full_in_Hmax3_above_Hmax0 [of "[''Hmax'' \<mapsto> Num 0, ''Zc'' \<mapsto> Num 0]"
      "[''Hmax'' \<mapsto> Num 3, ''Zc'' \<mapsto> Num 0]"
      "[''moment'' \<mapsto> Str ''full'', ''comp_zone'' \<mapsto> Str ''in'']"]
  by simp

text \<open>
  C9. In the flexural model the concrete cover \<^verbatim>\<open>X\<close> does not influence the result
  when the corrosion type is \<^verbatim>\<open>'uniform'\<close>, and the pile diameter \<^verbatim>\<open>dp\<close> does not
  influence it when the corrosion type is \<^verbatim>\<open>'pitting'\<close>: two \<^verbatim>\<open>params\<close> dicts that
  differ only in the value stored under that key give the same result.
\<close>

theorem flexural_unused_covariates:
  "(params ''corr'' = Some (Str ''uniform'') \<longrightarrow>
      pile_connection_pf_flexural_maniglio IM (params(''X'' \<mapsto> X1))
      = pile_connection_pf_flexural_maniglio IM (params(''X'' \<mapsto> X2)))
 \<and> (params ''corr'' = Some (Str ''pitting'') \<longrightarrow>
      pile_connection_pf_flexural_maniglio IM (params(''dp'' \<mapsto> dp1))
      = pile_connection_pf_flexural_maniglio IM (params(''dp'' \<mapsto> dp2)))"
proof (intro conjI impI)
  assume u: "params ''corr'' = Some (Str ''uniform'')"
  show "pile_connection_pf_flexural_maniglio IM (params(''X'' \<mapsto> X1))
      = pile_connection_pf_flexural_maniglio IM (params(''X'' \<mapsto> X2))"
    unfolding pile_connection_pf_flexural_maniglio_def
    apply (simp add: getitem_upd_same getitem_upd_other bnd_Inr)
    apply (intro bnd_cong_Inr)
    apply (clarsimp simp: getitem_eq_Inr u)
    apply (simp only: flexural_logit_uniform_X [where X = X1 and X' = X2])
    done
next
  assume p: "params ''corr'' = Some (Str ''pitting'')"
  show "pile_connection_pf_flexural_maniglio IM (params(''dp'' \<mapsto> dp1))
      = pile_connection_pf_flexural_maniglio IM (params(''dp'' \<mapsto> dp2))"
    unfolding pile_connection_pf_flexural_maniglio_def
    apply (simp add: getitem_upd_same getitem_upd_other bnd_Inr)
    apply (intro bnd_cong_Inr)
    apply (clarsimp simp: getitem_eq_Inr p)
    apply (simp only: flexural_logit_pitting_dp [where dp = dp1 and dp' = dp2])
    done
qed

theorem flexural_unused_covariates_witness:
  "pile_connection_pf_flexural_maniglio [''Hmax'' \<mapsto> Num 4, ''Zc'' \<mapsto> Num 0]
     ([''b1'' \<mapsto> Num 2, ''b2'' \<mapsto> Num 5, ''bh'' \<mapsto> Num 1, ''bw'' \<mapsto> Num 6,
       ''dse'' \<mapsto> Num 0.025, ''nb'' \<mapsto> Num 4, ''dp'' \<mapsto> Num 0.6, ''t'' \<mapsto> Num 25,
       ''depth'' \<mapsto> Num 10, ''corr'' \<mapsto> Str ''uniform''](''X'' \<mapsto> Num 5))
   = pile_connection_pf_flexural_maniglio [''Hmax'' \<mapsto> Num 4, ''Zc'' \<mapsto> Num 0]
     ([''b1'' \<mapsto> Num 2, ''b2'' \<mapsto> Num 5, ''bh'' \<mapsto> Num 1, ''bw'' \<mapsto> Num 6,
       ''dse'' \<mapsto> Num 0.025, ''nb'' \<mapsto> Num 4, ''dp'' \<mapsto> Num 0.6, ''t'' \<mapsto> Num 25,
       ''depth'' \<mapsto> Num 10, ''corr'' \<mapsto> Str ''uniform''](''X'' \<mapsto> Num 9))
  \<and> pile_connection_pf_flexural_maniglio [''Hmax'' \<mapsto> Num 4, ''Zc'' \<mapsto> Num 0]
     ([''b1'' \<mapsto> Num 2, ''b2'' \<mapsto> Num 5, ''bh'' \<mapsto> Num 1, ''bw'' \<mapsto> Num 6,
       ''dse'' \<mapsto> Num 0.025, ''nb'' \<mapsto> Num 4, ''t'' \<mapsto> Num 25, ''X'' \<mapsto> Num 5,
       ''depth'' \<mapsto> Num 10, ''corr'' \<mapsto> Str ''pitting''](''dp'' \<mapsto> Num 0.6))
   = pile_connection_pf_flexural_maniglio [''Hmax'' \<mapsto> Num 4, ''Zc'' \<mapsto> Num 0]
     ([''b1'' \<mapsto> Num 2, ''b2'' \<mapsto> Num 5, ''bh'' \<mapsto> Num 1, ''bw'' \<mapsto> Num 6,
       ''dse'' \<mapsto> Num 0.025, ''nb'' \<mapsto> Num 4, ''t'' \<mapsto> Num 25, ''X'' \<mapsto> Num 5,
       ''depth'' \<mapsto> Num 10, ''corr'' \<mapsto> Str ''pitting''](''dp'' \<mapsto> Num 0.9))"
  using
    flexural_unused_covariates [of
      "[''b1'' \<mapsto> Num 2, ''b2'' \<mapsto> Num 5, ''bh'' \<mapsto> Num 1, ''bw'' \<mapsto> Num 6,
       ''dse'' \<mapsto> Num 0.025, ''nb'' \<mapsto> Num 4, ''dp'' \<mapsto> Num 0.6, ''t'' \<mapsto> Num 25,
       ''depth'' \<mapsto> Num 10, ''corr'' \<mapsto> Str ''uniform'']"
      "[''Hmax'' \<mapsto> Num 4, ''Zc'' \<mapsto> Num 0]" "Num 5" "Num 9"]
    flexural_unused_covariates [of
      "[''b1'' \<mapsto> Num 2, ''b2'' \<mapsto> Num 5, ''bh'' \<mapsto> Num 1, ''bw'' \<mapsto> Num 6,
       ''dse'' \<mapsto> Num 0.025, ''nb'' \<mapsto> Num 4, ''t'' \<mapsto> Num 25, ''X'' \<mapsto> Num 5,
       ''depth'' \<mapsto> Num 10, ''corr'' \<mapsto> Str ''pitting'']"
      "[''Hmax'' \<mapsto> Num 4, ''Zc'' \<mapsto> Num 0]" _ _ "Num 0.6" "Num 0.9"]
  by simp




end
